theory Spec2Isabelle
  imports Main "HOL-Library.Sublist"
begin

section \<open>Values, errors and the interpreter's rules\<close>

text \<open>
  The program is the single module \<^verbatim>\<open>src/rnn/seq2seq_model.py\<close>: a class
  \<^verbatim>\<open>Seq2seq_OIE\<close> (its constructor, \<^verbatim>\<open>compile_model\<close>, \<^verbatim>\<open>get_callbacks\<close>,
  \<^verbatim>\<open>train\<close>, \<^verbatim>\<open>load_dataset\<close>) and the script body under
  \<^verbatim>\<open>if __name__ == "__main__"\<close>. Everything it computes with comes from libraries
  (pandas, numpy, keras, seq2seq, docopt, json, logging, the Glove loader), so the
  embedding keeps the module's own control flow, name resolution, argument passing and
  order of calls, and takes what the libraries return as a parameter.

  Values that the module handles itself (the content of the hyperparameter file, the
  command-line dictionary, string and boolean literals) are \<open>pyval\<close>. JSON floats are
  left out: the module never computes with one, and their text is floating-point
  formatting.
\<close>

datatype pyval =
    PNone
  | PBool bool
  | PInt int
  | PStr string
  | PList "pyval list"
  | PDict "(string \<times> pyval) list"

text \<open>
  An object is a value of the module, an object owned by a library (opaque, of type
  \<open>'o\<close>: a reference, what a method does to its receiver stays inside the library),
  a tuple or list built by the module, what a global or built-in name of the module is
  bound to (by that name), or an instance of the class \<^verbatim>\<open>Seq2seq_OIE\<close>: its
  attribute dictionary, the latest assignment first.
\<close>

datatype 'o obj =
    OVal pyval
  | OExt 'o
  | OTuple "'o obj list"
  | OList "'o obj list"
  | OFun string
  | OInst "(string \<times> 'o obj) list"

datatype error =
    NameError string
  | KeyError string
  | AttributeError string
  | TypeError string
  | ValueError string
  | LibError string

text \<open>
  What the libraries and the interpreter contribute. \<open>'r\<close> is the state of numpy's
  process-wide random number generator, the only state of a library that the module
  sets itself (\<^verbatim>\<open>np.random.seed\<close>); a call into a library may read and advance it.
  \<^item> \<open>call\<close>: calling an imported callable, named as the module writes it, with
    positional and keyword arguments;
  \<^item> \<open>glove\<close>: the embedding loader \<^verbatim>\<open>Glove(path)\<close>;
  \<^item> \<open>meth\<close>: calling a method of an object;
  \<^item> \<open>attr\<close>: reading an attribute of a library object;
  \<^item> \<open>seed_state\<close>: the generator state that \<^verbatim>\<open>np.random.seed(v)\<close> installs for
    a seed \<open>v\<close> other than \<^verbatim>\<open>None\<close>, or its error for a value that is no seed;
  \<^item> \<open>truthy\<close>: the truth value of a library object;
  \<^item> \<open>repr\<close>: the text \<^verbatim>\<open>str()\<close> gives a list or dict.
\<close>

record ('o, 'r) ext =
  call :: "string \<Rightarrow> 'o obj list \<Rightarrow> (string \<times> 'o obj) list \<Rightarrow> 'r \<Rightarrow> (error + 'o obj) \<times> 'r"
  meth :: "'o obj \<Rightarrow> string \<Rightarrow> 'o obj list \<Rightarrow> (string \<times> 'o obj) list \<Rightarrow> 'r \<Rightarrow> (error + 'o obj) \<times> 'r"
  glove :: "'o obj \<Rightarrow> error + 'o"
  attr :: "'o \<Rightarrow> string \<Rightarrow> error + 'o obj"
  seed_state :: "'o obj \<Rightarrow> error + 'r"
  truthy :: "'o \<Rightarrow> bool"
  repr :: "pyval \<Rightarrow> string"

text \<open>
  Every call that leaves the module is recorded, in order. Besides the generator state
  and the logging level, the state of a run holds what the operating system's entropy
  source gives numpy each time it is asked (\<open>os_entropy\<close>, by the number of the
  request) and how often it has been asked (\<open>os_reads\<close>): two runs of the program
  differ in it.
\<close>

datatype 'o event =
    EvCall string "'o obj list" "(string \<times> 'o obj) list"
  | EvMeth "'o obj" string "'o obj list" "(string \<times> 'o obj) list"
  | EvSeed "'o obj"
  | EvBasicConfig int

record ('o, 'r) world =
  rng :: 'r
  log_level :: int
  events :: "'o event list"
  os_entropy :: "nat \<Rightarrow> 'r"
  os_reads :: nat

type_synonym ('a, 'o, 'r) act = "('o, 'r) world \<Rightarrow> (error + 'a) \<times> ('o, 'r) world"

definition ret :: "'a \<Rightarrow> ('a, 'o, 'r) act" where
  "ret x = (\<lambda>w. (Inr x, w))"

definition throw :: "error \<Rightarrow> ('a, 'o, 'r) act" where
  "throw e = (\<lambda>w. (Inl e, w))"

definition lift :: "error + 'a \<Rightarrow> ('a, 'o, 'r) act" where
  "lift v = (\<lambda>w. (v, w))"

text \<open>Sequencing: an exception ends the run with the state reached so far.\<close>

definition bindE :: "('a, 'o, 'r) act \<Rightarrow> ('a \<Rightarrow> ('b, 'o, 'r) act) \<Rightarrow> ('b, 'o, 'r) act" where
  "bindE m f = (\<lambda>w. case m w of (Inl e, w') \<Rightarrow> (Inl e, w') | (Inr x, w') \<Rightarrow> f x w')"

definition log_event :: "'o event \<Rightarrow> ('o, 'r) world \<Rightarrow> ('o, 'r) world" where
  "log_event ev w = w\<lparr>events := events w @ [ev]\<rparr>"

definition ext_call ::
  "('o, 'r) ext \<Rightarrow> string \<Rightarrow> 'o obj list \<Rightarrow> (string \<times> 'o obj) list \<Rightarrow> ('o obj, 'o, 'r) act" where
  "ext_call X f args kwargs = (\<lambda>w.
     case call X f args kwargs (rng w) of
       (res, r') \<Rightarrow> (res, log_event (EvCall f args kwargs) (w\<lparr>rng := r'\<rparr>)))"

definition ext_meth ::
  "('o, 'r) ext \<Rightarrow> 'o obj \<Rightarrow> string \<Rightarrow> 'o obj list \<Rightarrow> (string \<times> 'o obj) list \<Rightarrow> ('o obj, 'o, 'r) act" where
  "ext_meth X target m args kwargs = (\<lambda>w.
     case meth X target m args kwargs (rng w) of
       (res, r') \<Rightarrow> (res, log_event (EvMeth target m args kwargs) (w\<lparr>rng := r'\<rparr>)))"

subsection \<open>Built-in operations\<close>

text \<open>The decimal text of an integer, as \<^verbatim>\<open>str\<close> and \<^verbatim>\<open>format\<close> give it.\<close>

definition digit_char :: "nat \<Rightarrow> char" where
  "digit_char d = char_of (of_char CHR ''0'' + d)"

function decimal :: "nat \<Rightarrow> string" where
  "decimal n =
     (if n div 10 = 0 then [digit_char n]
      else decimal (n div 10) @ [digit_char (n mod 10)])"
  by pat_completeness auto
termination
  by (relation "measure (\<lambda>n. n)") auto

definition str_int :: "int \<Rightarrow> string" where
  "str_int i = (if i < 0 then CHR ''-'' # decimal (nat (- i)) else decimal (nat i))"

text \<open>\<^verbatim>\<open>str(v)\<close> on a value of the module.\<close>

fun py_str :: "('o, 'r) ext \<Rightarrow> pyval \<Rightarrow> string" where
  "py_str X PNone = ''None''"
| "py_str X (PBool b) = (if b then ''True'' else ''False'')"
| "py_str X (PInt i) = str_int i"
| "py_str X (PStr s) = s"
| "py_str X v = repr X v"

text \<open>\<^verbatim>\<open>str(x)\<close> on any object: a library object answers through its own method.\<close>

definition str_obj :: "('o, 'r) ext \<Rightarrow> 'o obj \<Rightarrow> ('o obj, 'o, 'r) act" where
  "str_obj X x =
     (case x of
        OVal v \<Rightarrow> ret (OVal (PStr (py_str X v)))
      | _ \<Rightarrow> ext_meth X x ''__str__'' [] [])"

fun py_truthy :: "pyval \<Rightarrow> bool" where
  "py_truthy PNone = False"
| "py_truthy (PBool b) = b"
| "py_truthy (PInt i) = (i \<noteq> 0)"
| "py_truthy (PStr s) = (s \<noteq> [])"
| "py_truthy (PList xs) = (xs \<noteq> [])"
| "py_truthy (PDict kvs) = (kvs \<noteq> [])"

fun obj_truthy :: "('o, 'r) ext \<Rightarrow> 'o obj \<Rightarrow> bool" where
  "obj_truthy X (OVal v) = py_truthy v"
| "obj_truthy X (OExt x) = truthy X x"
| "obj_truthy X (OTuple xs) = (xs \<noteq> [])"
| "obj_truthy X (OList xs) = (xs \<noteq> [])"
| "obj_truthy X (OFun f) = True"
| "obj_truthy X (OInst kvs) = True"

text \<open>\<^verbatim>\<open>d[k]\<close> with a string key.\<close>

definition subscript :: "('o, 'r) ext \<Rightarrow> 'o obj \<Rightarrow> string \<Rightarrow> ('o obj, 'o, 'r) act" where
  "subscript X d k =
     (case d of
        OVal (PDict kvs) \<Rightarrow>
          (case map_of kvs k of None \<Rightarrow> throw (KeyError k) | Some v \<Rightarrow> ret (OVal v))
      | OVal (PList xs) \<Rightarrow> throw (TypeError ''list indices must be integers'')
      | OVal (PStr s) \<Rightarrow> throw (TypeError ''string indices must be integers'')
      | OVal v \<Rightarrow> throw (TypeError ''object is not subscriptable'')
      | OTuple xs \<Rightarrow> throw (TypeError ''tuple indices must be integers'')
      | OList xs \<Rightarrow> throw (TypeError ''list indices must be integers'')
      | OFun f \<Rightarrow> throw (TypeError ''object is not subscriptable'')
      | OInst kvs \<Rightarrow> throw (TypeError ''object is not subscriptable'')
      | OExt x \<Rightarrow> ext_meth X d ''__getitem__'' [OVal (PStr k)] [])"

subsection \<open>Names the module can resolve\<close>

text \<open>
  The names bound at module level by lines 15 to 28 (the imports and the class), the
  names the script body binds when the module is run as a program (lines 181 to 196),
  and the built-in names the module refers to.
\<close>

definition module_globals :: "string list" where
  "module_globals =
     [''seq2seq'', ''pd'', ''np'', ''plot_model'', ''Seq2Seq'', ''AttentionSeq2Seq'',
      ''LambdaCallback'', ''ModelCheckpoint'', ''docopt'', ''pformat'', ''logging'',
      ''json'', ''Glove'', ''Seq2seq_OIE'']"

definition script_globals :: "string list" where
  "script_globals =
     [''args'', ''verbosity_level'', ''train_fn'', ''dev_fn'', ''test_fn'',
      ''hyperparams_fn'', ''output_fn'', ''hyperparams'', ''df'']"

definition builtins :: "string list" where
  "builtins = [''str'', ''range'', ''open'', ''__name__'', ''__doc__'']"

text \<open>
  The parameters of a function and the variables it assigns are bound variables of its
  definition here. Any other name is looked up in the module, then among the
  built-ins, when the expression is evaluated; a name found nowhere raises.
\<close>

definition global :: "string \<Rightarrow> ('o obj, 'o, 'r) act" where
  "global name =
     (if name \<in> set module_globals \<or> name \<in> set script_globals \<or> name \<in> set builtins
      then ret (OFun name) else throw (NameError name))"

section \<open>The class \<^verbatim>\<open>Seq2seq_OIE\<close>\<close>

text \<open>
  The class contributes the names of its functions (lines 33, 72, 122, 140, 157) to
  every instance; \<^verbatim>\<open>self.n = v\<close> adds an attribute to the instance.
\<close>

definition class_attrs :: "string list" where
  "class_attrs = [''__init__'', ''compile_model'', ''get_callbacks'', ''train'', ''load_dataset'']"

definition set_attr :: "string \<Rightarrow> 'o obj \<Rightarrow> 'o obj \<Rightarrow> 'o obj" where
  "set_attr n v self = (case self of OInst kvs \<Rightarrow> OInst ((n, v) # kvs) | _ \<Rightarrow> self)"

definition get_attr :: "('o, 'r) ext \<Rightarrow> 'o obj \<Rightarrow> string \<Rightarrow> ('o obj, 'o, 'r) act" where
  "get_attr X x n =
     (case x of
        OInst kvs \<Rightarrow>
          (case map_of kvs n of
             Some v \<Rightarrow> ret v
           | None \<Rightarrow> if n \<in> set class_attrs then ret (OFun n) else throw (AttributeError n))
      | OExt e \<Rightarrow> lift (attr X e n)
      | _ \<Rightarrow> throw (AttributeError n))"

subsection \<open>\<^verbatim>\<open>load_dataset\<close> (lines 156 to 167)\<close>

text \<open>
  The \<^verbatim>\<open>names\<close> argument:
  \<^verbatim>\<open>['sent', 'base-pred', 'surface-pred'] + ['arg{}'.format(i) for i in range(10)]\<close>.
\<close>

definition column_names :: "string list" where
  "column_names =
     [''sent'', ''base-pred'', ''surface-pred''] @ map (\<lambda>i. ''arg'' @ str_int i) [0..9]"

text \<open>
  A static method of two parameters; what \<^verbatim>\<open>pd.read_csv\<close> returns is returned as it
  is. The lines after the \<^verbatim>\<open>return\<close> are comments.
\<close>

definition load_dataset :: "('o, 'r) ext \<Rightarrow> 'o obj list \<Rightarrow> ('o obj, 'o, 'r) act" where
  "load_dataset X args =
     (case args of
        [fn, sep] \<Rightarrow>
          bindE (global ''pd'') (\<lambda>_.
          bindE (global ''range'') (\<lambda>_.
          ext_call X ''pd.read_csv'' [fn]
            [(''sep'', sep),
             (''header'', OVal PNone),
             (''names'', OVal (PList (map PStr column_names))),
             (''engine'', OVal (PStr ''python''))]))
      | _ \<Rightarrow> throw (TypeError ''load_dataset() takes exactly 2 arguments''))"

subsection \<open>\<^verbatim>\<open>compile_model\<close> (lines 71 to 120)\<close>

record 'o compile_args =
  input_length :: "'o obj"
  input_depth :: "'o obj"
  input_dim :: "'o obj"
  hidden_dim :: "'o obj"
  output_length :: "'o obj"
  output_depth :: "'o obj"
  output_dim :: "'o obj"
  peek :: "'o obj"
  attention :: "'o obj"
  loss :: "'o obj"
  optimizer :: "'o obj"

text \<open>
  Lines 101 to 104, the lambda \<^verbatim>\<open>model_fn\<close>: its body is a conditional expression on
  \<^verbatim>\<open>attention\<close>; \<^verbatim>\<open>peek\<close> is a keyword of the call to \<^verbatim>\<open>Seq2Seq\<close> only.
\<close>

definition model_fn ::
  "('o, 'r) ext \<Rightarrow> 'o compile_args \<Rightarrow> (string \<times> 'o obj) list \<Rightarrow> ('o obj, 'o, 'r) act" where
  "model_fn X a kwargs =
     (if obj_truthy X (attention a)
      then bindE (global ''AttentionSeq2Seq'') (\<lambda>_.
           ext_call X ''AttentionSeq2Seq'' [] kwargs)
      else bindE (global ''Seq2Seq'') (\<lambda>_.
           ext_call X ''Seq2Seq'' [] ((''peek'', peek a) # kwargs)))"

definition DEBUG :: int where "DEBUG = 10"
definition INFO :: int where "INFO = 20"

definition compile_model :: "('o, 'r) ext \<Rightarrow> 'o compile_args \<Rightarrow> ('o obj, 'o, 'r) act" where
  "compile_model X a =
     bindE (model_fn X a
              [(''input_length'', input_length a),
               (''input_dim'', input_dim a),
               (''hidden_dim'', hidden_dim a),
               (''output_length'', output_length a),
               (''output_dim'', output_dim a),
               (''depth'', OTuple [input_depth a, output_depth a])]) (\<lambda>model.
     bindE (ext_meth X model ''compile'' [] [(''loss'', loss a), (''optimizer'', optimizer a)]) (\<lambda>_.
     bindE (global ''logging'') (\<lambda>_.
     (\<lambda>w. if log_level w = DEBUG
          then bindE (ext_meth X model ''summary'' [] []) (\<lambda>_. ret model) w
          else ret model w))))"

subsection \<open>The constructor (lines 33 to 68)\<close>

text \<open>
  Modelled from the spec: the embedding loader \<^verbatim>\<open>Glove\<close> of the module
  \<^verbatim>\<open>load_pretrained_word_embeddings\<close>, which is not among the sources. The table is
  loaded from the file the path names, so the loader is a function of the path, and the
  module reads nothing of the table but its attribute \<^verbatim>\<open>dim\<close>.
\<close>

definition Glove :: "('o, 'r) ext \<Rightarrow> 'o obj \<Rightarrow> ('o obj, 'o, 'r) act" where
  "Glove X path = (\<lambda>w.
     (case glove X path of Inl e \<Rightarrow> Inl e | Inr g \<Rightarrow> Inr (OExt g),
      log_event (EvCall ''Glove'' [path] []) w))"

text \<open>
  \<^verbatim>\<open>np.random.seed(v)\<close>: with \<^verbatim>\<open>None\<close> numpy seeds the generator from the
  operating system's entropy source; with any other value the generator state is
  replaced by the one the seed determines, or the value is refused.
\<close>

definition np_random_seed :: "('o, 'r) ext \<Rightarrow> 'o obj \<Rightarrow> ('o obj, 'o, 'r) act" where
  "np_random_seed X v = (\<lambda>w.
     if v = OVal PNone
     then (Inr (OVal PNone),
           log_event (EvSeed v)
             (w\<lparr>rng := os_entropy w (os_reads w), os_reads := Suc (os_reads w)\<rparr>))
     else
       case seed_state X v of
         Inl e \<Rightarrow> (Inl e, log_event (EvSeed v) w)
       | Inr r \<Rightarrow> (Inr (OVal PNone), log_event (EvSeed v) (w\<lparr>rng := r\<rparr>)))"

text \<open>\<^verbatim>\<open>self.args[k]\<close>.\<close>

definition self_args :: "('o, 'r) ext \<Rightarrow> 'o obj \<Rightarrow> string \<Rightarrow> ('o obj, 'o, 'r) act" where
  "self_args X self k = bindE (get_attr X self ''args'') (\<lambda>d. subscript X d k)"

text \<open>\<^verbatim>\<open>self.emb.dim\<close>.\<close>

definition self_emb_dim :: "('o, 'r) ext \<Rightarrow> 'o obj \<Rightarrow> ('o obj, 'o, 'r) act" where
  "self_emb_dim X self = bindE (get_attr X self ''emb'') (\<lambda>e. get_attr X e ''dim'')"

text \<open>
  \<^verbatim>\<open>Seq2seq_OIE(**args)\<close>: the keyword dictionary is the hyperparameter mapping.
  Each statement of the constructor is a definition of its own, from the instance
  before it to the instance after it; \<open>init\<close> runs them in the order of the source.
\<close>

text \<open>Line 53: \<^verbatim>\<open>self.sep = str(self.args['sep'])\<close>.\<close>

definition init_sep :: "('o, 'r) ext \<Rightarrow> 'o obj \<Rightarrow> ('o obj, 'o, 'r) act" where
  "init_sep X self =
     bindE (global ''str'') (\<lambda>_.
     bindE (self_args X self ''sep'') (\<lambda>v.
     bindE (str_obj X v) (\<lambda>s.
     ret (set_attr ''sep'' s self))))"

text \<open>Line 54: \<^verbatim>\<open>self.emb = Glove(self.args['emb_fn'])\<close>.\<close>

definition init_emb :: "('o, 'r) ext \<Rightarrow> 'o obj \<Rightarrow> ('o obj, 'o, 'r) act" where
  "init_emb X self =
     bindE (global ''Glove'') (\<lambda>_.
     bindE (self_args X self ''emb_fn'') (\<lambda>p.
     bindE (Glove X p) (\<lambda>e.
     ret (set_attr ''emb'' e self))))"

text \<open>Line 55: \<^verbatim>\<open>self.epochs = self.args['epochs']\<close>.\<close>

definition init_epochs :: "('o, 'r) ext \<Rightarrow> 'o obj \<Rightarrow> ('o obj, 'o, 'r) act" where
  "init_epochs X self =
     bindE (self_args X self ''epochs'') (\<lambda>n.
     ret (set_attr ''epochs'' n self))"

text \<open>Line 56: \<^verbatim>\<open>np.random.seed(self.args['seed'])\<close>.\<close>

definition init_seed :: "('o, 'r) ext \<Rightarrow> 'o obj \<Rightarrow> ('o obj, 'o, 'r) act" where
  "init_seed X self =
     bindE (global ''np'') (\<lambda>_.
     bindE (self_args X self ''seed'') (\<lambda>sd.
     np_random_seed X sd))"

text \<open>
  Lines 57 to 68: \<^verbatim>\<open>self.model = Seq2seq_OIE.compile_model(...)\<close>, the keyword
  arguments evaluated in the order they are written.
\<close>

definition init_model :: "('o, 'r) ext \<Rightarrow> 'o obj \<Rightarrow> ('o obj, 'o, 'r) act" where
  "init_model X self =
     bindE (global ''Seq2seq_OIE'') (\<lambda>_.
     bindE (self_args X self ''batch_size'') (\<lambda>a1.
     bindE (self_args X self ''input_depth'') (\<lambda>a2.
     bindE (self_emb_dim X self) (\<lambda>a3.
     bindE (self_args X self ''hidden_dim'') (\<lambda>a4.
     bindE (self_args X self ''maximum_output_length'') (\<lambda>a5.
     bindE (self_args X self ''output_depth'') (\<lambda>a6.
     bindE (self_emb_dim X self) (\<lambda>a7.
     bindE (self_args X self ''peek'') (\<lambda>a8.
     bindE (self_args X self ''attention'') (\<lambda>a9.
     bindE (self_args X self ''loss'') (\<lambda>a10.
     bindE (self_args X self ''optimizer'') (\<lambda>a11.
     bindE (compile_model X
              \<lparr>input_length = a1, input_depth = a2, input_dim = a3, hidden_dim = a4,
               output_length = a5, output_depth = a6, output_dim = a7, peek = a8,
               attention = a9, loss = a10, optimizer = a11\<rparr>) (\<lambda>m.
     ret (set_attr ''model'' m self))))))))))))))"

definition init :: "('o, 'r) ext \<Rightarrow> (string \<times> pyval) list \<Rightarrow> ('o obj, 'o, 'r) act" where
  "init X args =
     bindE (ret (set_attr ''args'' (OVal (PDict args)) (OInst []))) (\<lambda>self0.
     bindE (init_sep X self0) (\<lambda>self1.
     bindE (init_emb X self1) (\<lambda>self2.
     bindE (init_epochs X self2) (\<lambda>self3.
     bindE (init_seed X self3) (\<lambda>_.
     init_model X self3)))))"

subsection \<open>\<^verbatim>\<open>get_callbacks\<close> (lines 122 to 137)\<close>

text \<open>
  The lambda of lines 130 and 131, run by keras at the end of an epoch:
  \<^verbatim>\<open>pprint(self.sample_labels(self.model.predict(X)))\<close>. The callee \<^verbatim>\<open>pprint\<close> is
  looked up first, then \<^verbatim>\<open>self.sample_labels\<close>, then the argument is computed.
\<close>

definition sample_output_callback ::
  "('o, 'r) ext \<Rightarrow> 'o obj \<Rightarrow> 'o obj \<Rightarrow> 'o obj list \<Rightarrow> ('o obj, 'o, 'r) act" where
  "sample_output_callback X self x args =
     (case args of
        [epoch, logs] \<Rightarrow>
          bindE (global ''pprint'') (\<lambda>_.
          bindE (get_attr X self ''sample_labels'') (\<lambda>f.
          bindE (get_attr X self ''model'') (\<lambda>m.
          bindE (ext_meth X m ''predict'' [x] []) (\<lambda>y.
          bindE (ext_meth X f ''__call__'' [y] []) (\<lambda>z.
          ext_call X ''pprint'' [z] [])))))
      | _ \<Rightarrow> throw (TypeError ''<lambda>() takes exactly 2 arguments''))"

text \<open>
  A function of two parameters, \<^verbatim>\<open>self\<close> and \<^verbatim>\<open>X\<close>. Creating the first callback
  does not run the lambda. The arguments of \<^verbatim>\<open>ModelCheckpoint\<close> are evaluated
  from the left: \<^verbatim>\<open>os\<close>, then \<^verbatim>\<open>self.model_dir\<close>, then the call of
  \<^verbatim>\<open>os.path.join\<close>.
\<close>

definition get_callbacks :: "('o, 'r) ext \<Rightarrow> 'o obj list \<Rightarrow> ('o obj, 'o, 'r) act" where
  "get_callbacks X args =
     (case args of
        [self, x] \<Rightarrow>
          bindE (global ''LambdaCallback'') (\<lambda>_.
          bindE (ext_call X ''LambdaCallback'' [] [(''on_epoch_end'', OFun ''<lambda>'')])
            (\<lambda>sample_output.
          bindE (global ''ModelCheckpoint'') (\<lambda>_.
          bindE (global ''os'') (\<lambda>_.
          bindE (get_attr X self ''model_dir'') (\<lambda>d.
          bindE (ext_call X ''os.path.join'' [d, OVal (PStr ''weights.hdf5'')] []) (\<lambda>path.
          bindE (ext_call X ''ModelCheckpoint'' [path]
                   [(''verbose'', OVal (PInt 1)), (''save_best_only'', OVal (PBool False))])
            (\<lambda>checkpoint.
          ret (OList [sample_output, checkpoint]))))))))
      | _ \<Rightarrow> throw (TypeError ''get_callbacks() takes exactly 2 arguments''))"

subsection \<open>\<^verbatim>\<open>train\<close> (lines 140 to 154)\<close>

text \<open>\<^verbatim>\<open>a, b = v\<close>.\<close>

definition unpack2 :: "('o, 'r) ext \<Rightarrow> 'o obj \<Rightarrow> ('o obj \<times> 'o obj, 'o, 'r) act" where
  "unpack2 X v =
     (case v of
        OTuple [a, b] \<Rightarrow> ret (a, b)
      | OList [a, b] \<Rightarrow> ret (a, b)
      | OTuple xs \<Rightarrow> throw (ValueError ''wrong number of values to unpack'')
      | OList xs \<Rightarrow> throw (ValueError ''wrong number of values to unpack'')
      | OExt e \<Rightarrow>
          bindE (ext_meth X v ''__iter__'' [] []) (\<lambda>it.
            case it of
              OList [a, b] \<Rightarrow> ret (a, b)
            | _ \<Rightarrow> throw (ValueError ''wrong number of values to unpack''))
      | _ \<Rightarrow> throw (TypeError ''object is not iterable''))"

text \<open>
  \<^verbatim>\<open>def train(train_fn, dev_fn)\<close>: a function of two parameters, neither of them
  \<^verbatim>\<open>self\<close>, so \<^verbatim>\<open>self\<close> in its body is a global name. \<^verbatim>\<open>load_dataset\<close> is
  a static method (no instance is passed to it), \<^verbatim>\<open>get_callbacks\<close> is not.
\<close>

definition train :: "('o, 'r) ext \<Rightarrow> 'o obj list \<Rightarrow> ('o obj, 'o, 'r) act" where
  "train X args =
     (case args of
        [train_fn, dev_fn] \<Rightarrow>
          bindE (global ''self'') (\<lambda>self.
          bindE (get_attr X self ''load_dataset'') (\<lambda>_.
          bindE (load_dataset X [train_fn]) (\<lambda>r1.
          bindE (unpack2 X r1) (\<lambda>(X_train, Y_train).
          bindE (get_attr X self ''load_dataset'') (\<lambda>_.
          bindE (load_dataset X [dev_fn]) (\<lambda>r2.
          bindE (unpack2 X r2) (\<lambda>(X_dev, Y_dev).
          bindE (global ''logging'') (\<lambda>_.
          bindE (ext_meth X (OVal (PStr ''Training model on {}'')) ''format'' [train_fn] []) (\<lambda>msg.
          bindE (ext_call X ''logging.debug'' [msg] []) (\<lambda>_.
          bindE (get_attr X self ''model'') (\<lambda>m.
          bindE (get_attr X self ''batch_size'') (\<lambda>bs.
          bindE (get_attr X self ''epochs'') (\<lambda>ep.
          bindE (get_attr X self ''get_callbacks'') (\<lambda>_.
          bindE (get_callbacks X [self, X_train]) (\<lambda>cbs.
          bindE (ext_meth X m ''fit'' [X_train, Y_train]
                   [(''batch_size'', bs), (''nb_epoch'', ep),
                    (''validation_data'', OTuple [X_dev, Y_dev]), (''callbacks'', cbs)]) (\<lambda>_.
          ret (OVal PNone)))))))))))))))))
      | _ \<Rightarrow> throw (TypeError ''train() takes exactly 2 arguments''))"

text \<open>
  \<^verbatim>\<open>instance.f(a, ...)\<close> on a function \<open>f\<close> of the class that is not static: the
  instance is passed as the first positional argument.
\<close>

definition call_method ::
  "('o obj list \<Rightarrow> ('o obj, 'o, 'r) act) \<Rightarrow> 'o obj \<Rightarrow> 'o obj list \<Rightarrow> ('o obj, 'o, 'r) act" where
  "call_method f self args = f (self # args)"

section \<open>The script body (lines 179 to 197)\<close>

text \<open>
  \<^verbatim>\<open>logging.basicConfig(level = l)\<close> at the start of the process sets the level
  that \<^verbatim>\<open>compile_model\<close> reads.
\<close>

definition basicConfig :: "int \<Rightarrow> ('o obj, 'o, 'r) act" where
  "basicConfig l = (\<lambda>w. (Inr (OVal PNone), log_event (EvBasicConfig l) (w\<lparr>log_level := l\<rparr>)))"

text \<open>Lines 181 to 186: the command line and the logging level.\<close>

definition main_args :: "('o, 'r) ext \<Rightarrow> ('o obj, 'o, 'r) act" where
  "main_args X =
     bindE (global ''docopt'') (\<lambda>_.
     bindE (global ''__doc__'') (\<lambda>doc.
     bindE (ext_call X ''docopt'' [doc] []) (\<lambda>args.
     bindE (global ''logging'') (\<lambda>_.
     bindE (subscript X args ''-v'') (\<lambda>v.
     bindE (basicConfig (if obj_truthy X v then DEBUG else INFO)) (\<lambda>_.
     bindE (global ''pformat'') (\<lambda>_.
     bindE (ext_call X ''pformat'' [args] []) (\<lambda>s.
     bindE (ext_call X ''logging.debug'' [s] []) (\<lambda>_.
     ret args)))))))))"

text \<open>
  Lines 187 to 191: the five paths; the script uses \<^verbatim>\<open>train_fn\<close> and
  \<^verbatim>\<open>hyperparams_fn\<close> only.
\<close>

definition main_paths :: "('o, 'r) ext \<Rightarrow> 'o obj \<Rightarrow> ('o obj \<times> 'o obj, 'o, 'r) act" where
  "main_paths X args =
     bindE (subscript X args ''--train'') (\<lambda>train_fn.
     bindE (subscript X args ''--dev'') (\<lambda>dev_fn.
     bindE (subscript X args ''--test'') (\<lambda>test_fn.
     bindE (subscript X args ''--hyperparams'') (\<lambda>hyperparams_fn.
     bindE (subscript X args ''--saveto'') (\<lambda>output_fn.
     ret (train_fn, hyperparams_fn))))))"

text \<open>Lines 194 and 195: the hyperparameter file.\<close>

definition main_hyperparams :: "('o, 'r) ext \<Rightarrow> 'o obj \<Rightarrow> ('o obj, 'o, 'r) act" where
  "main_hyperparams X hyperparams_fn =
     bindE (global ''json'') (\<lambda>_.
     bindE (global ''open'') (\<lambda>_.
     bindE (ext_call X ''open'' [hyperparams_fn] []) (\<lambda>f.
     bindE (ext_call X ''json.load'' [f] []) (\<lambda>j.
     bindE (subscript X j ''hyperparams'') (\<lambda>hyperparams.
     bindE (global ''logging'') (\<lambda>_.
     bindE (global ''pformat'') (\<lambda>_.
     bindE (ext_call X ''pformat'' [hyperparams] []) (\<lambda>s.
     bindE (ext_meth X (OVal (PStr ''Model hyperparms: {}'')) ''format'' [s] []) (\<lambda>msg.
     bindE (ext_call X ''logging.debug'' [msg] []) (\<lambda>_.
     ret hyperparams))))))))))"

text \<open>
  Line 196: \<^verbatim>\<open>df = Seq2seq_OIE.load_dataset(train_fn, str(hyperparams['sep']))\<close>.
\<close>

definition main_load :: "('o, 'r) ext \<Rightarrow> 'o obj \<Rightarrow> 'o obj \<Rightarrow> ('o obj, 'o, 'r) act" where
  "main_load X train_fn hyperparams =
     bindE (global ''Seq2seq_OIE'') (\<lambda>_.
     bindE (global ''str'') (\<lambda>_.
     bindE (subscript X hyperparams ''sep'') (\<lambda>sep.
     bindE (str_obj X sep) (\<lambda>s.
     load_dataset X [train_fn, s]))))"

text \<open>
  Line 197, the construction of the model, is a comment, and it is the last line of the
  file: the script ends with the table bound to \<^verbatim>\<open>df\<close>.
\<close>

definition main :: "('o, 'r) ext \<Rightarrow> ('o obj, 'o, 'r) act" where
  "main X =
     bindE (main_args X) (\<lambda>args.
     bindE (main_paths X args) (\<lambda>(train_fn, hyperparams_fn).
     bindE (main_hyperparams X hyperparams_fn) (\<lambda>hyperparams.
     main_load X train_fn hyperparams)))"

section \<open>A small environment to run the module in\<close>

text \<open>
  A library stand-in over natural numbers: \<^verbatim>\<open>docopt\<close> and \<^verbatim>\<open>json.load\<close> return
  fixed dictionaries (the hyperparameter file holds the number 5 under \<^verbatim>\<open>sep\<close>),
  every other call returns a fresh object and draws once from the generator, the
  embedding table has width 50, and a seed is any integer.
\<close>

definition demo_ext :: "(nat, nat) ext" where
  "demo_ext =
     \<lparr>call = (\<lambda>f args kwargs r.
        if f = ''docopt'' then
          (Inr (OVal (PDict [(''-v'', PBool False), (''--train'', PStr ''train.tsv''),
             (''--dev'', PStr ''dev.tsv''), (''--test'', PStr ''test.tsv''),
             (''--hyperparams'', PStr ''hp.json''), (''--saveto'', PStr ''out'')])), r)
        else if f = ''json.load'' then
          (Inr (OVal (PDict [(''hyperparams'', PDict [(''sep'', PInt 5)])])), r)
        else (Inr (OExt (length kwargs)), Suc r)),
      meth = (\<lambda>target m args kwargs r. (Inr (OVal PNone), r)),
      glove = (\<lambda>path. Inr 50),
      attr = (\<lambda>e n. if n = ''dim'' then Inr (OVal (PInt (int e))) else Inl (AttributeError n)),
      seed_state = (\<lambda>v. case v of OVal (PInt i) \<Rightarrow> Inr (nat i) | _ \<Rightarrow> Inl (TypeError ''seed'')),
      truthy = (\<lambda>e. True),
      repr = (\<lambda>v. ''[...]'')\<rparr>"

definition demo_world :: "(nat, nat) world" where
  "demo_world =
     \<lparr>rng = 7, log_level = 30, events = [], os_entropy = (\<lambda>n. 100 + n), os_reads = 0\<rparr>"

definition demo_hyperparams :: "(string \<times> pyval) list" where
  "demo_hyperparams =
     [(''seed'', PInt 42), (''sep'', PStr ''|''), (''batch_size'', PInt 3),
      (''maximum_output_length'', PInt 5), (''emb_fn'', PStr ''glove.txt''),
      (''hidden_dim'', PInt 4), (''input_depth'', PInt 1), (''output_depth'', PInt 1),
      (''peek'', PBool True), (''attention'', PBool True), (''epochs'', PInt 1),
      (''loss'', PStr ''mse''), (''optimizer'', PStr ''adam'')]"

text \<open>A second run: the same state, other entropy from the operating system.\<close>

definition demo_world2 :: "(nat, nat) world" where
  "demo_world2 = demo_world\<lparr>os_entropy := (\<lambda>n. 200 + n)\<rparr>"

text \<open>The same hyperparameters with \<^verbatim>\<open>null\<close> as the seed.\<close>

definition demo_null_seed :: "(string \<times> pyval) list" where
  "demo_null_seed = (''seed'', PNone) # demo_hyperparams"

definition demo_args :: "nat compile_args" where
  "demo_args =
     \<lparr>input_length = OVal (PInt 3), input_depth = OVal (PInt 1), input_dim = OVal (PInt 50),
      hidden_dim = OVal (PInt 4), output_length = OVal (PInt 5), output_depth = OVal (PInt 1),
      output_dim = OVal (PInt 50), peek = OVal (PBool True), attention = OVal (PBool True),
      loss = OVal (PStr ''mse''), optimizer = OVal (PStr ''adam'')\<rparr>"

section \<open>The steps of a run\<close>

text \<open>
  The recorded calls are read as steps: parsing the command line, setting the logging
  level, reading the hyperparameter file, loading the embedding table, seeding the
  generator, building and compiling the network, reading a dataset, creating a callback
  and fitting. Any other call (formatting, logging, opening a file) is no step.
\<close>

datatype step =
    ParseArgs | ConfigLogging | ReadHyperparams | LoadEmbedding | SeedRng
  | BuildNetwork | CompileNetwork | ReadDataset | MakeCallback | FitNetwork

fun step_of :: "'o event \<Rightarrow> step list" where
  "step_of (EvCall f args kwargs) =
     (if f = ''docopt'' then [ParseArgs]
      else if f = ''json.load'' then [ReadHyperparams]
      else if f = ''Glove'' then [LoadEmbedding]
      else if f = ''AttentionSeq2Seq'' \<or> f = ''Seq2Seq'' then [BuildNetwork]
      else if f = ''pd.read_csv'' then [ReadDataset]
      else if f = ''LambdaCallback'' \<or> f = ''ModelCheckpoint'' then [MakeCallback]
      else [])"
| "step_of (EvMeth target m args kwargs) =
     (if m = ''compile'' then [CompileNetwork]
      else if m = ''fit'' then [FitNetwork]
      else [])"
| "step_of (EvSeed v) = [SeedRng]"
| "step_of (EvBasicConfig l) = [ConfigLogging]"

definition steps :: "'o event list \<Rightarrow> step list" where
  "steps evs = concat (map step_of evs)"

definition new_steps :: "('a, 'o, 'r) act \<Rightarrow> ('o, 'r) world \<Rightarrow> step list" where
  "new_steps m w = steps (drop (length (events w)) (events (snd (m w))))"

fun in_order :: "'a list \<Rightarrow> 'a list \<Rightarrow> bool" where
  "in_order [] ys = True"
| "in_order (x # xs) [] = False"
| "in_order (x # xs) (y # ys) = (if x = y then in_order xs ys else in_order (x # xs) ys)"

text \<open>
  \<open>new_steps m w\<close> are the steps that the run of \<open>m\<close> from \<open>w\<close> adds, and
  \<open>in_order xs ys\<close> holds when the steps \<open>xs\<close> occur in \<open>ys\<close> in this order,
  other steps between them allowed.

  \<open>does m S\<close>: a run of \<open>m\<close> that returns has added the steps \<open>S\<close>, in this order,
  and a run that raises has added the first few of them. \<open>returns m P\<close>: what \<open>m\<close>
  returns satisfies \<open>P\<close>.
\<close>

definition does :: "('a, 'o, 'r) act \<Rightarrow> step list \<Rightarrow> bool" where
  "does m S \<longleftrightarrow>
     (\<forall>w. \<exists>evs. events (snd (m w)) = events w @ evs
        \<and> (case fst (m w) of Inr x \<Rightarrow> steps evs = S | Inl e \<Rightarrow> prefix (steps evs) S))"

definition returns :: "('a, 'o, 'r) act \<Rightarrow> ('a \<Rightarrow> bool) \<Rightarrow> bool" where
  "returns m P \<longleftrightarrow> (\<forall>w x w'. m w = (Inr x, w') \<longrightarrow> P x)"

text \<open>
  Two runs of the program differ in what the operating system's entropy source gives
  them. \<open>agree w1 w2\<close>: two states are the same but for that; \<open>same_outcome m\<close>: from
  two such states \<open>m\<close> gives the same result and leaves two such states.
\<close>

definition agree :: "('o, 'r) world \<Rightarrow> ('o, 'r) world \<Rightarrow> bool" where
  "agree w1 w2 \<longleftrightarrow> rng w1 = rng w2 \<and> log_level w1 = log_level w2 \<and> events w1 = events w2"

definition same_outcome :: "('a, 'o, 'r) act \<Rightarrow> bool" where
  "same_outcome m \<longleftrightarrow>
     (\<forall>w1 w2. agree w1 w2 \<longrightarrow> fst (m w1) = fst (m w2) \<and> agree (snd (m w1)) (snd (m w2)))"

text \<open>\<open>total m\<close>: every run of \<open>m\<close> returns.\<close>

definition total :: "('a, 'o, 'r) act \<Rightarrow> bool" where
  "total m \<longleftrightarrow> (\<forall>w. \<not> isl (fst (m w)))"




section \<open>Basic facts\<close>

lemma bindE_ret [simp]: "bindE (ret x) f = f x"
  by (simp add: bindE_def ret_def)

lemma bindE_throw [simp]: "bindE (throw e) f = throw e"
  by (simp add: bindE_def throw_def)

lemma global_bound:
  "name \<in> set (module_globals @ script_globals @ builtins) \<Longrightarrow> global name = ret (OFun name)"
  by (auto simp: global_def)

lemma global_unbound:
  "name \<notin> set (module_globals @ script_globals @ builtins) \<Longrightarrow>
   global name = throw (NameError name)"
  by (auto simp: global_def)

lemma names_in_scope [simp]:
  "global ''pd'' = ret (OFun ''pd'')"
  "global ''range'' = ret (OFun ''range'')"
  "global ''np'' = ret (OFun ''np'')"
  "global ''str'' = ret (OFun ''str'')"
  "global ''Glove'' = ret (OFun ''Glove'')"
  "global ''Seq2seq_OIE'' = ret (OFun ''Seq2seq_OIE'')"
  "global ''AttentionSeq2Seq'' = ret (OFun ''AttentionSeq2Seq'')"
  "global ''Seq2Seq'' = ret (OFun ''Seq2Seq'')"
  "global ''logging'' = ret (OFun ''logging'')"
  "global ''LambdaCallback'' = ret (OFun ''LambdaCallback'')"
  "global ''ModelCheckpoint'' = ret (OFun ''ModelCheckpoint'')"
  "global ''docopt'' = ret (OFun ''docopt'')"
  "global ''__doc__'' = ret (OFun ''__doc__'')"
  "global ''pformat'' = ret (OFun ''pformat'')"
  "global ''json'' = ret (OFun ''json'')"
  "global ''open'' = ret (OFun ''open'')"
  by (simp_all add: global_bound module_globals_def script_globals_def builtins_def)

lemma names_out_of_scope [simp]:
  "global ''os'' = throw (NameError ''os'')"
  "global ''self'' = throw (NameError ''self'')"
  "global ''pprint'' = throw (NameError ''pprint'')"
  by (simp_all add: global_unbound module_globals_def script_globals_def builtins_def)

lemma column_names_eq:
  "column_names =
     [''sent'', ''base-pred'', ''surface-pred'', ''arg0'', ''arg1'', ''arg2'', ''arg3'',
      ''arg4'', ''arg5'', ''arg6'', ''arg7'', ''arg8'', ''arg9'']"
  by code_simp

subsection \<open>Steps: one rule for each construct\<close>

lemma steps_append [simp]: "steps (xs @ ys) = steps xs @ steps ys"
  by (simp add: steps_def)

lemma steps_Nil [simp]: "steps [] = []"
  by (simp add: steps_def)

lemma steps_single [simp]: "steps [ev] = step_of ev"
  by (simp add: steps_def)

lemma does_ret: "does (ret x) []"
  by (simp add: does_def ret_def)

lemma does_throw: "does (throw e) S"
  by (simp add: does_def throw_def)

lemma does_lift: "does (lift v) []"
  by (auto simp: does_def lift_def split: sum.splits)

lemma does_bind:
  assumes m: "does m S1" and f: "\<And>x. does (f x) S2"
  shows "does (bindE m f) (S1 @ S2)"
  unfolding does_def
proof (intro allI)
  fix w
  from m obtain evs1 where e1: "events (snd (m w)) = events w @ evs1"
    and r1: "case fst (m w) of Inr x \<Rightarrow> steps evs1 = S1 | Inl e \<Rightarrow> prefix (steps evs1) S1"
    unfolding does_def by blast
  show "\<exists>evs. events (snd (bindE m f w)) = events w @ evs \<and>
          (case fst (bindE m f w) of Inl e \<Rightarrow> prefix (steps evs) (S1 @ S2)
           | Inr x \<Rightarrow> steps evs = S1 @ S2)"
  proof (cases "m w")
    case (Pair r w1)
    show ?thesis
    proof (cases r)
      case (Inl e)
      with Pair r1 have "prefix (steps evs1) (S1 @ S2)" by (simp add: prefix_prefix)
      with Pair Inl e1 show ?thesis
        by (intro exI[of _ evs1]) (simp add: bindE_def)
    next
      case (Inr x)
      with Pair r1 have s1: "steps evs1 = S1" by simp
      from f[of x] obtain evs2 where e2: "events (snd (f x w1)) = events w1 @ evs2"
        and r2: "case fst (f x w1) of Inr y \<Rightarrow> steps evs2 = S2 | Inl e \<Rightarrow> prefix (steps evs2) S2"
        unfolding does_def by blast
      from Pair e1 have w1: "events w1 = events w @ evs1" by simp
      have b: "bindE m f w = f x w1" using Pair Inr by (simp add: bindE_def)
      show ?thesis
      proof (cases "fst (f x w1)")
        case (Inl e)
        with r2 have "prefix (steps (evs1 @ evs2)) (S1 @ S2)" using s1 by simp
        with Inl e2 w1 b show ?thesis
          by (intro exI[of _ "evs1 @ evs2"]) simp
      next
        case (Inr y)
        with r2 have "steps (evs1 @ evs2) = S1 @ S2" using s1 by simp
        with Inr e2 w1 b show ?thesis
          by (intro exI[of _ "evs1 @ evs2"]) simp
      qed
    qed
  qed
qed

lemma does_bind_quiet: "does m [] \<Longrightarrow> (\<And>x. does (f x) S) \<Longrightarrow> does (bindE m f) S"
  using does_bind[of m "[]" f S] by simp

lemma does_then_quiet: "does m S \<Longrightarrow> (\<And>x. does (f x) []) \<Longrightarrow> does (bindE m f) S"
  using does_bind[of m S f "[]"] by simp

lemma does_ext_call: "does (ext_call X f args kwargs) (step_of (EvCall f args kwargs))"
  unfolding does_def
proof (intro allI)
  fix w
  show "\<exists>evs. events (snd (ext_call X f args kwargs w)) = events w @ evs \<and>
          (case fst (ext_call X f args kwargs w) of
             Inl e \<Rightarrow> prefix (steps evs) (step_of (EvCall f args kwargs))
           | Inr x \<Rightarrow> steps evs = step_of (EvCall f args kwargs))"
    by (intro exI[of _ "[EvCall f args kwargs]"])
       (simp add: ext_call_def log_event_def split: prod.splits sum.splits)
qed

lemma does_ext_meth: "does (ext_meth X t m args kwargs) (step_of (EvMeth t m args kwargs))"
  unfolding does_def
proof (intro allI)
  fix w
  show "\<exists>evs. events (snd (ext_meth X t m args kwargs w)) = events w @ evs \<and>
          (case fst (ext_meth X t m args kwargs w) of
             Inl e \<Rightarrow> prefix (steps evs) (step_of (EvMeth t m args kwargs))
           | Inr x \<Rightarrow> steps evs = step_of (EvMeth t m args kwargs))"
    by (intro exI[of _ "[EvMeth t m args kwargs]"])
       (simp add: ext_meth_def log_event_def split: prod.splits sum.splits)
qed



lemma does_basicConfig: "does (basicConfig l) [ConfigLogging]"
  unfolding does_def
proof (intro allI)
  fix w :: "('a, 'b) world"
  show "\<exists>evs. events (snd (basicConfig l w)) = events w @ evs \<and>
          (case fst (basicConfig l w :: (error + 'a obj) \<times> ('a, 'b) world) of
             Inl e \<Rightarrow> prefix (steps evs) [ConfigLogging]
           | Inr x \<Rightarrow> steps evs = [ConfigLogging])"
    by (intro exI[of _ "[EvBasicConfig l]"])
       (simp add: basicConfig_def log_event_def)
qed

lemma does_global: "does (global n) []"
  by (simp add: global_def does_ret does_throw)

lemma does_getitem: "does (ext_meth X t ''__getitem__'' args kwargs) []"
  using does_ext_meth[of X t "''__getitem__''" args kwargs] by simp

lemma does_str: "does (ext_meth X t ''__str__'' args kwargs) []"
  using does_ext_meth[of X t "''__str__''" args kwargs] by simp

lemma does_subscript: "does (subscript X d k) []"
  by (simp add: subscript_def does_ret does_throw does_getitem
           split: obj.splits pyval.splits option.splits)

lemma does_str_obj: "does (str_obj X x) []"
  by (simp add: str_obj_def does_ret does_str split: obj.splits)

lemma does_get_attr: "does (get_attr X x n) []"
  by (simp add: get_attr_def does_ret does_throw does_lift split: obj.splits option.splits)

lemma does_self_args: "does (self_args X self k) []"
  unfolding self_args_def by (intro does_bind_quiet does_get_attr does_subscript)

lemma does_self_emb_dim: "does (self_emb_dim X self) []"
  unfolding self_emb_dim_def by (intro does_bind_quiet does_get_attr)

lemmas does_quiet =
  does_ret does_lift does_global does_subscript does_str_obj does_get_attr does_self_args
  does_self_emb_dim

lemma does_load_dataset: "does (load_dataset X args) [ReadDataset]"
proof -
  have "does (ext_call X ''pd.read_csv'' a b) [ReadDataset]" for a b
    using does_ext_call[of X "''pd.read_csv''" a b] by simp
  then show ?thesis
    unfolding load_dataset_def
    by (auto split: list.splits intro!: does_throw does_bind_quiet does_quiet)
qed










lemma does_main_args: "does (main_args X) [ParseArgs, ConfigLogging]"
proof -
  have q: "does (ext_call X ''pformat'' a b) []" "does (ext_call X ''logging.debug'' a b) []"
    for a b
    using does_ext_call[of X "''pformat''" a b] does_ext_call[of X "''logging.debug''" a b]
    by simp_all
  have d: "does (ext_call X ''docopt'' a b) [ParseArgs]" for a b
    using does_ext_call[of X "''docopt''" a b] by simp
  have t1: "does (bindE (global ''pformat'') (\<lambda>_.
     bindE (ext_call X ''pformat'' [args] []) (\<lambda>s.
     bindE (ext_call X ''logging.debug'' [s] []) (\<lambda>_.
     ret args)))) []" for args
    by (intro does_bind_quiet does_quiet q)
  have t2: "does (bindE (basicConfig l) (\<lambda>_.
     bindE (global ''pformat'') (\<lambda>_.
     bindE (ext_call X ''pformat'' [args] []) (\<lambda>s.
     bindE (ext_call X ''logging.debug'' [s] []) (\<lambda>_.
     ret args))))) [ConfigLogging]" for l args
    by (rule does_then_quiet[OF does_basicConfig t1])
  have t3: "does (bindE (global ''logging'') (\<lambda>_.
     bindE (subscript X args ''-v'') (\<lambda>v.
     bindE (basicConfig (if obj_truthy X v then DEBUG else INFO)) (\<lambda>_.
     bindE (global ''pformat'') (\<lambda>_.
     bindE (ext_call X ''pformat'' [args] []) (\<lambda>s.
     bindE (ext_call X ''logging.debug'' [s] []) (\<lambda>_.
     ret args))))))) [ConfigLogging]" for args
    by (rule does_bind_quiet[OF does_global does_bind_quiet[OF does_subscript t2]])
  have t4: "does (bindE (ext_call X ''docopt'' [doc] []) (\<lambda>args.
     bindE (global ''logging'') (\<lambda>_.
     bindE (subscript X args ''-v'') (\<lambda>v.
     bindE (basicConfig (if obj_truthy X v then DEBUG else INFO)) (\<lambda>_.
     bindE (global ''pformat'') (\<lambda>_.
     bindE (ext_call X ''pformat'' [args] []) (\<lambda>s.
     bindE (ext_call X ''logging.debug'' [s] []) (\<lambda>_.
     ret args)))))))) [ParseArgs, ConfigLogging]" for doc
    using does_bind[OF d t3] by simp
  show ?thesis
    unfolding main_args_def
    by (rule does_bind_quiet[OF does_global does_bind_quiet[OF does_global t4]])
qed

lemma does_main_paths: "does (main_paths X args) []"
  unfolding main_paths_def by (intro does_bind_quiet does_quiet)

lemma does_main_hyperparams: "does (main_hyperparams X fn) [ReadHyperparams]"
proof -
  have q: "does (ext_call X ''pformat'' a b) []" "does (ext_call X ''logging.debug'' a b) []"
    "does (ext_call X ''open'' a b) []" "does (ext_meth X t ''format'' a b) []"
    for a b t
    using does_ext_call[of X "''pformat''" a b] does_ext_call[of X "''logging.debug''" a b]
      does_ext_call[of X "''open''" a b] does_ext_meth[of X t "''format''" a b]
    by simp_all
  have j: "does (ext_call X ''json.load'' a b) [ReadHyperparams]" for a b
    using does_ext_call[of X "''json.load''" a b] by simp
  show ?thesis
    unfolding main_hyperparams_def
    by (intro does_bind_quiet does_then_quiet j does_quiet q)
qed

lemma does_main_load: "does (main_load X train_fn hyperparams) [ReadDataset]"
  unfolding main_load_def by (intro does_bind_quiet does_load_dataset does_quiet)

lemma does_case_prod: "(\<And>a b. does (f a b) S) \<Longrightarrow> does (case p of (a, b) \<Rightarrow> f a b) S"
  by (cases p) simp

lemma does_main: "does (main X) [ParseArgs, ConfigLogging, ReadHyperparams, ReadDataset]"
proof -
  have a: "does (bindE (main_hyperparams X h) (\<lambda>hyperparams. main_load X t hyperparams))
             [ReadHyperparams, ReadDataset]" for h t
    using does_bind[OF does_main_hyperparams does_main_load] by simp
  have b: "does (bindE (main_paths X args) (\<lambda>(train_fn, hyperparams_fn).
     bindE (main_hyperparams X hyperparams_fn) (\<lambda>hyperparams.
     main_load X train_fn hyperparams))) [ReadHyperparams, ReadDataset]" for args
    by (rule does_bind_quiet[OF does_main_paths does_case_prod[OF a]])
  show ?thesis
    unfolding main_def using does_bind[OF does_main_args b] by simp
qed

lemma does_new_steps:
  assumes "does m S"
  shows "prefix (new_steps m w) S" and "\<not> isl (fst (m w)) \<Longrightarrow> new_steps m w = S"
proof -
  from assms obtain evs where e: "events (snd (m w)) = events w @ evs"
    and r: "case fst (m w) of Inr x \<Rightarrow> steps evs = S | Inl e \<Rightarrow> prefix (steps evs) S"
    unfolding does_def by blast
  have n: "new_steps m w = steps evs" by (simp add: new_steps_def e)
  show "prefix (new_steps m w) S" using r n by (cases "fst (m w)") simp_all
  show "new_steps m w = S" if "\<not> isl (fst (m w))" using r n that by (cases "fst (m w)") simp_all
qed

subsection \<open>The constructor on a hyperparameter dictionary\<close>

lemma self_args_dict:
  "map_of kvs ''args'' = Some (OVal (PDict d)) \<Longrightarrow>
   self_args X (OInst kvs) k =
     (case map_of d k of None \<Rightarrow> throw (KeyError k) | Some v \<Rightarrow> ret (OVal v))"
  by (simp add: self_args_def get_attr_def subscript_def)

lemma init_sep_dict:
  "map_of kvs ''args'' = Some (OVal (PDict d)) \<Longrightarrow>
   init_sep X (OInst kvs) =
     (case map_of d ''sep'' of
        None \<Rightarrow> throw (KeyError ''sep'')
      | Some v \<Rightarrow> ret (OInst ((''sep'', OVal (PStr (py_str X v))) # kvs)))"
  by (simp add: init_sep_def self_args_dict str_obj_def set_attr_def split: option.splits)

lemma init_emb_dict:
  "map_of kvs ''args'' = Some (OVal (PDict d)) \<Longrightarrow>
   init_emb X (OInst kvs) =
     (case map_of d ''emb_fn'' of
        None \<Rightarrow> throw (KeyError ''emb_fn'')
      | Some p \<Rightarrow> bindE (Glove X (OVal p)) (\<lambda>e. ret (OInst ((''emb'', e) # kvs))))"
  by (simp add: init_emb_def self_args_dict set_attr_def split: option.splits)

lemma init_epochs_dict:
  "map_of kvs ''args'' = Some (OVal (PDict d)) \<Longrightarrow>
   init_epochs X (OInst kvs) =
     (case map_of d ''epochs'' of
        None \<Rightarrow> throw (KeyError ''epochs'')
      | Some n \<Rightarrow> ret (OInst ((''epochs'', OVal n) # kvs)))"
  by (simp add: init_epochs_def self_args_dict set_attr_def split: option.splits)

lemma init_seed_dict:
  "map_of kvs ''args'' = Some (OVal (PDict d)) \<Longrightarrow>
   init_seed X (OInst kvs) =
     (case map_of d ''seed'' of
        None \<Rightarrow> throw (KeyError ''seed'')
      | Some sd \<Rightarrow> np_random_seed X (OVal sd))"
  by (simp add: init_seed_def self_args_dict split: option.splits)

lemma init_unfold:
  "init X args =
     (case map_of args ''sep'' of
        None \<Rightarrow> throw (KeyError ''sep'')
      | Some v \<Rightarrow>
     (case map_of args ''emb_fn'' of
        None \<Rightarrow> throw (KeyError ''emb_fn'')
      | Some p \<Rightarrow>
     bindE (Glove X (OVal p)) (\<lambda>e.
     (case map_of args ''epochs'' of
        None \<Rightarrow> throw (KeyError ''epochs'')
      | Some n \<Rightarrow>
     (case map_of args ''seed'' of
        None \<Rightarrow> throw (KeyError ''seed'')
      | Some sd \<Rightarrow>
     bindE (np_random_seed X (OVal sd)) (\<lambda>_.
     init_model X (OInst [(''epochs'', OVal n), (''emb'', e),
        (''sep'', OVal (PStr (py_str X v))), (''args'', OVal (PDict args))])))))))"
  by (simp add: init_def set_attr_def init_sep_dict init_emb_dict init_epochs_dict
        init_seed_dict fun_eq_iff bindE_def ret_def throw_def
      split: option.splits prod.splits sum.splits)

subsection \<open>What the constructor returns\<close>

lemma returns_ret: "P x \<Longrightarrow> returns (ret x) P"
  by (simp add: returns_def ret_def)

lemma returns_throw: "returns (throw e) P"
  by (simp add: returns_def throw_def)

lemma returns_bind: "(\<And>x. returns (f x) P) \<Longrightarrow> returns (bindE m f) P"
  by (auto simp: returns_def bindE_def split: prod.splits sum.splits)

lemma returnsD: "returns m P \<Longrightarrow> m w = (Inr x, w') \<Longrightarrow> P x"
  by (auto simp: returns_def)

lemma returns_mono: "returns m P \<Longrightarrow> (\<And>x. P x \<Longrightarrow> Q x) \<Longrightarrow> returns m Q"
  by (auto simp: returns_def)

lemma returns_init_model:
  "returns (init_model X (OInst kvs)) (\<lambda>s. \<exists>m. s = OInst ((''model'', m) # kvs))"
  unfolding init_model_def
  by (intro returns_bind returns_ret) (simp add: set_attr_def)

lemma returns_init:
  "returns (init X args) (\<lambda>s. \<exists>m n e v. map_of args ''sep'' = Some v \<and>
     s = OInst [(''model'', m), (''epochs'', OVal n), (''emb'', e),
                (''sep'', OVal (PStr (py_str X v))), (''args'', OVal (PDict args))])"
  unfolding init_unfold
  by (auto split: option.splits
           intro!: returns_throw returns_bind returns_mono[OF returns_init_model])

subsection \<open>The width the network is built with\<close>








subsection \<open>When the constructor returns\<close>






lemma total_Glove: "\<not> isl (glove X p) \<Longrightarrow> total (Glove X p)"
  by (cases "glove X p") (simp_all add: total_def Glove_def)




subsection \<open>Two runs compared\<close>

lemma same_ret: "same_outcome (ret x)"
  by (simp add: same_outcome_def ret_def)

lemma same_throw: "same_outcome (throw e)"
  by (simp add: same_outcome_def throw_def)

lemma same_lift: "same_outcome (lift v)"
  by (simp add: same_outcome_def lift_def)

lemma same_bind:
  fixes m :: "('a, 'o, 'r) act" and f :: "'a \<Rightarrow> ('b, 'o, 'r) act"
  assumes m: "same_outcome m" and f: "\<And>x. same_outcome (f x)"
  shows "same_outcome (bindE m f)"
  unfolding same_outcome_def
proof (intro allI impI)
  fix w1 w2 :: "('o, 'r) world"
  assume a: "agree w1 w2"
  from m a have r: "fst (m w1) = fst (m w2)" and w: "agree (snd (m w1)) (snd (m w2))"
    unfolding same_outcome_def by blast+
  show "fst (bindE m f w1) = fst (bindE m f w2)
        \<and> agree (snd (bindE m f w1)) (snd (bindE m f w2))"
  proof (cases "fst (m w1)")
    case (Inl e)
    with r w show ?thesis
      by (cases "m w1"; cases "m w2") (simp add: bindE_def)
  next
    case (Inr x)
    from f[of x] w have "fst (f x (snd (m w1))) = fst (f x (snd (m w2)))
        \<and> agree (snd (f x (snd (m w1)))) (snd (f x (snd (m w2))))"
      unfolding same_outcome_def by blast
    with Inr r show ?thesis
      by (cases "m w1"; cases "m w2") (auto simp: bindE_def)
  qed
qed

lemma same_ext_call: "same_outcome (ext_call X f as kw)"
  by (simp add: same_outcome_def agree_def ext_call_def log_event_def split: prod.splits)

lemma same_ext_meth: "same_outcome (ext_meth X t m as kw)"
  by (simp add: same_outcome_def agree_def ext_meth_def log_event_def split: prod.splits)

lemma same_global: "same_outcome (global n)"
  by (simp add: global_def same_ret same_throw)

lemma same_subscript: "same_outcome (subscript X d k)"
  by (simp add: subscript_def same_ret same_throw same_ext_meth
           split: obj.splits pyval.splits option.splits)

lemma same_get_attr: "same_outcome (get_attr X x n)"
  by (simp add: get_attr_def same_ret same_throw same_lift split: obj.splits option.splits)

lemma same_self_args: "same_outcome (self_args X self k)"
  unfolding self_args_def by (intro same_bind same_get_attr same_subscript)

lemma same_self_emb_dim: "same_outcome (self_emb_dim X self)"
  unfolding self_emb_dim_def by (intro same_bind same_get_attr)

lemma same_if_level:
  fixes m m' :: "('a, 'o, 'r) act"
  assumes m: "same_outcome m" and m': "same_outcome m'"
  shows "same_outcome (\<lambda>w. if log_level w = l then m w else m' w)"
  unfolding same_outcome_def
proof (intro allI impI)
  fix w1 w2 :: "('o, 'r) world"
  assume a: "agree w1 w2"
  then have l: "log_level w1 = log_level w2" by (simp add: agree_def)
  from m a have 1: "fst (m w1) = fst (m w2) \<and> agree (snd (m w1)) (snd (m w2))"
    unfolding same_outcome_def by blast
  from m' a have 2: "fst (m' w1) = fst (m' w2) \<and> agree (snd (m' w1)) (snd (m' w2))"
    unfolding same_outcome_def by blast
  show "fst (if log_level w1 = l then m w1 else m' w1)
          = fst (if log_level w2 = l then m w2 else m' w2)
        \<and> agree (snd (if log_level w1 = l then m w1 else m' w1))
                (snd (if log_level w2 = l then m w2 else m' w2))"
    using 1 2 l by simp
qed

lemma same_model_fn: "same_outcome (model_fn X a kwargs)"
  unfolding model_fn_def
  by (simp add: same_bind same_global same_ext_call)

lemma same_compile_model: "same_outcome (compile_model X a)"
proof -
  have "same_outcome (\<lambda>w. if log_level w = DEBUG
          then bindE (ext_meth X model ''summary'' [] []) (\<lambda>_. ret model) w
          else ret model w)" for model
    by (rule same_if_level) (intro same_bind same_ext_meth same_ret, rule same_ret)
  then show ?thesis
    unfolding compile_model_def
    by (intro same_bind same_model_fn same_ext_meth same_global)
qed

lemma same_init_model: "same_outcome (init_model X self)"
  unfolding init_model_def
  by (intro same_bind same_global same_self_args same_self_emb_dim same_compile_model same_ret)

subsection \<open>The two runs in the small environment\<close>

lemma main_demo_returns: "\<not> isl (fst (main demo_ext demo_world))"
  by (simp add: main_def main_args_def main_paths_def main_hyperparams_def main_load_def
        load_dataset_def demo_ext_def demo_world_def bindE_def ext_call_def ext_meth_def
        subscript_def str_obj_def basicConfig_def log_event_def ret_def throw_def)

lemma init_demo_eval:
  "init demo_ext demo_hyperparams (demo_world\<lparr>rng := r, os_entropy := en\<rparr>) =
     (Inr (OInst [(''model'', OExt 6), (''epochs'', OVal (PInt 1)), (''emb'', OExt 50),
                  (''sep'', OVal (PStr ''|'')), (''args'', OVal (PDict demo_hyperparams))]),
      demo_world\<lparr>rng := 43, os_entropy := en,
       events :=
         [EvCall ''Glove'' [OVal (PStr ''glove.txt'')] [],
          EvSeed (OVal (PInt 42)),
          EvCall ''AttentionSeq2Seq'' []
            [(''input_length'', OVal (PInt 3)), (''input_dim'', OVal (PInt 50)),
             (''hidden_dim'', OVal (PInt 4)), (''output_length'', OVal (PInt 5)),
             (''output_dim'', OVal (PInt 50)),
             (''depth'', OTuple [OVal (PInt 1), OVal (PInt 1)])],
          EvMeth (OExt 6) ''compile'' []
            [(''loss'', OVal (PStr ''mse'')), (''optimizer'', OVal (PStr ''adam''))]]\<rparr>)"
  by (simp add: init_unfold init_model_def self_args_dict self_emb_dim_def get_attr_def
        compile_model_def model_fn_def Glove_def np_random_seed_def lift_def set_attr_def
        demo_hyperparams_def demo_ext_def demo_world_def bindE_def ext_call_def ext_meth_def
        log_event_def ret_def throw_def DEBUG_def)

lemma demo_world_same:
  "demo_world\<lparr>rng := 7, os_entropy := (\<lambda>n. 100 + n)\<rparr> = demo_world"
  by (simp add: demo_world_def)

lemmas init_demo_eval0 =
  init_demo_eval[where r = 7 and en = "\<lambda>n. 100 + n", unfolded demo_world_same]

lemma init_demo_returns: "\<not> isl (fst (init demo_ext demo_hyperparams demo_world))"
  by (simp add: init_demo_eval0)

lemma init_null_seed_eval:
  "init demo_ext demo_null_seed (demo_world\<lparr>os_entropy := en\<rparr>) =
     (Inr (OInst [(''model'', OExt 6), (''epochs'', OVal (PInt 1)), (''emb'', OExt 50),
                  (''sep'', OVal (PStr ''|'')), (''args'', OVal (PDict demo_null_seed))]),
      demo_world\<lparr>rng := Suc (en 0), os_entropy := en, os_reads := 1,
       events :=
         [EvCall ''Glove'' [OVal (PStr ''glove.txt'')] [],
          EvSeed (OVal PNone),
          EvCall ''AttentionSeq2Seq'' []
            [(''input_length'', OVal (PInt 3)), (''input_dim'', OVal (PInt 50)),
             (''hidden_dim'', OVal (PInt 4)), (''output_length'', OVal (PInt 5)),
             (''output_dim'', OVal (PInt 50)),
             (''depth'', OTuple [OVal (PInt 1), OVal (PInt 1)])],
          EvMeth (OExt 6) ''compile'' []
            [(''loss'', OVal (PStr ''mse'')), (''optimizer'', OVal (PStr ''adam''))]]\<rparr>)"
  by (simp add: init_unfold init_model_def self_args_dict self_emb_dim_def get_attr_def
        compile_model_def model_fn_def Glove_def np_random_seed_def lift_def set_attr_def
        demo_null_seed_def demo_hyperparams_def demo_ext_def demo_world_def bindE_def
        ext_call_def ext_meth_def log_event_def ret_def throw_def DEBUG_def)

section \<open>The network factory\<close>

text \<open>
  C1. With a true \<^verbatim>\<open>attention\<close>, \<^verbatim>\<open>compile_model\<close> does the same for any two values
  of \<^verbatim>\<open>peek\<close>, the other arguments, the libraries and the state being the same: the
  network is built by \<^verbatim>\<open>AttentionSeq2Seq\<close> from the six keyword arguments, without
  \<^verbatim>\<open>peek\<close>. With a false \<^verbatim>\<open>attention\<close> the network is built by \<^verbatim>\<open>Seq2Seq\<close>
  and \<^verbatim>\<open>peek\<close> is the first keyword argument of that call.
\<close>

theorem compile_model_peek_ignored_under_attention:
  "(obj_truthy X (attention a) \<longrightarrow>
      compile_model X (a\<lparr>peek := p1\<rparr>) = compile_model X (a\<lparr>peek := p2\<rparr>)
      \<and> model_fn X a kwargs = ext_call X ''AttentionSeq2Seq'' [] kwargs)
   \<and> (\<not> obj_truthy X (attention a) \<longrightarrow>
      model_fn X a kwargs = ext_call X ''Seq2Seq'' [] ((''peek'', peek a) # kwargs))"
  by (simp add: compile_model_def model_fn_def)

theorem compile_model_peek_ignored_under_attention_witness:
  "obj_truthy demo_ext (attention demo_args)
   \<and> compile_model demo_ext (demo_args\<lparr>peek := OVal (PBool True)\<rparr>) demo_world
     = compile_model demo_ext (demo_args\<lparr>peek := OVal (PBool False)\<rparr>) demo_world
   \<and> fst (compile_model demo_ext (demo_args\<lparr>peek := OVal (PBool True)\<rparr>) demo_world)
     = Inr (OExt 6)
   \<and> \<not> obj_truthy demo_ext (attention (demo_args\<lparr>attention := OVal (PBool False)\<rparr>))
   \<and> model_fn demo_ext (demo_args\<lparr>attention := OVal (PBool False)\<rparr>) []
     = ext_call demo_ext ''Seq2Seq'' [] [(''peek'', OVal (PBool True))]"
  using compile_model_peek_ignored_under_attention
          [of demo_ext demo_args "OVal (PBool True)" "OVal (PBool False)" "[]"]
        compile_model_peek_ignored_under_attention
          [of demo_ext "demo_args\<lparr>attention := OVal (PBool False)\<rparr>"
              "OVal (PBool True)" "OVal (PBool False)" "[]"]
  by (simp add: demo_args_def demo_ext_def demo_world_def compile_model_def model_fn_def
        ext_call_def ext_meth_def bindE_def ret_def log_event_def DEBUG_def)

section \<open>Loading a dataset\<close>

text \<open>
  C5. For every path and delimiter, \<^verbatim>\<open>load_dataset\<close> makes one library call,
  \<^verbatim>\<open>pd.read_csv\<close> on the path with the delimiter as \<^verbatim>\<open>sep\<close>, no header row, the
  thirteen column names \<^verbatim>\<open>sent\<close>, \<^verbatim>\<open>base-pred\<close>, \<^verbatim>\<open>surface-pred\<close>, \<^verbatim>\<open>arg0\<close>
  to \<^verbatim>\<open>arg9\<close>, and the python engine; what that call returns (the table or its error)
  is the result, unchanged.
\<close>

theorem load_dataset_passes_table_through:
  "(let kwargs =
      [(''sep'', sep), (''header'', OVal PNone),
       (''names'', OVal (PList (map PStr
          [''sent'', ''base-pred'', ''surface-pred'', ''arg0'', ''arg1'', ''arg2'', ''arg3'',
           ''arg4'', ''arg5'', ''arg6'', ''arg7'', ''arg8'', ''arg9'']))),
       (''engine'', OVal (PStr ''python''))]
    in fst (load_dataset X [fn, sep] w) = fst (call X ''pd.read_csv'' [fn] kwargs (rng w))
     \<and> events (snd (load_dataset X [fn, sep] w)) = events w @ [EvCall ''pd.read_csv'' [fn] kwargs])
   \<and> length column_names = 13 \<and> distinct column_names"
  apply (simp add: load_dataset_def Let_def)
  apply (simp add: column_names_eq ext_call_def log_event_def split: prod.splits)
  done

section \<open>Callbacks and training\<close>

text \<open>
  C9. Every call of \<^verbatim>\<open>get_callbacks\<close> on an instance raises: if creating the sampling
  callback does not fail, the name \<^verbatim>\<open>os\<close> in the checkpoint path raises a NameError,
  before \<^verbatim>\<open>self.model_dir\<close> is read and before \<^verbatim>\<open>ModelCheckpoint\<close> is called.
  Neither \<^verbatim>\<open>os\<close> nor \<^verbatim>\<open>pprint\<close> is a name of the module or a built-in, no function
  of the class is called \<^verbatim>\<open>model_dir\<close>, an instance that the constructor returns has
  no attribute \<^verbatim>\<open>model_dir\<close>, and the body of the sampling lambda raises a NameError
  for \<^verbatim>\<open>pprint\<close> whenever it is run.
\<close>

theorem get_callbacks_always_raises:
  "fst (call_method (get_callbacks X) self [x] w) =
     (case fst (call X ''LambdaCallback'' [] [(''on_epoch_end'', OFun ''<lambda>'')] (rng w)) of
        Inl e \<Rightarrow> Inl e
      | Inr cb \<Rightarrow> Inl (NameError ''os''))
   \<and> isl (fst (call_method (get_callbacks X) self [x] w))
   \<and> ''os'' \<notin> set (module_globals @ script_globals @ builtins)
   \<and> ''pprint'' \<notin> set (module_globals @ script_globals @ builtins)
   \<and> ''model_dir'' \<notin> set class_attrs
   \<and> returns (init X args)
        (\<lambda>self. get_attr X self ''model_dir'' = throw (AttributeError ''model_dir''))
   \<and> fst (sample_output_callback X self x [epoch, logs] w) = Inl (NameError ''pprint'')"
proof -
  have "returns (init X args)
        (\<lambda>self. get_attr X self ''model_dir'' = throw (AttributeError ''model_dir''))"
    by (rule returns_mono[OF returns_init]) (auto simp: get_attr_def class_attrs_def)
  moreover have "fst (call_method (get_callbacks X) self [x] w) =
     (case fst (call X ''LambdaCallback'' [] [(''on_epoch_end'', OFun ''<lambda>'')] (rng w)) of
        Inl e \<Rightarrow> Inl e
      | Inr cb \<Rightarrow> Inl (NameError ''os''))"
    apply (simp add: call_method_def get_callbacks_def)
    apply (simp add: bindE_def ext_call_def throw_def split: prod.splits sum.splits)
    done
  moreover have "fst (sample_output_callback X self x [epoch, logs] w) = Inl (NameError ''pprint'')"
    apply (simp add: sample_output_callback_def)
    apply (simp add: throw_def)
    done
  ultimately show ?thesis
    by (simp add: module_globals_def script_globals_def builtins_def class_attrs_def
             split: sum.splits)
qed

theorem get_callbacks_always_raises_witness:
  "\<not> isl (fst (init demo_ext demo_hyperparams demo_world))
   \<and> fst (bindE (init demo_ext demo_hyperparams)
          (\<lambda>self. get_attr demo_ext self ''model_dir'') demo_world)
     = Inl (AttributeError ''model_dir'')
   \<and> isl (fst (call_method (get_callbacks demo_ext) (OInst []) [OExt 0] demo_world))"
proof -
  note e = init_demo_eval0
  note t = get_callbacks_always_raises[where X = demo_ext and args = demo_hyperparams
      and self = "OInst []" and w = demo_world and x = "OExt 0"
      and epoch = "OVal PNone" and logs = "OVal PNone"]
  from t have "returns (init demo_ext demo_hyperparams)
        (\<lambda>self. get_attr demo_ext self ''model_dir''
           = (throw (AttributeError ''model_dir'') :: (nat obj, nat, nat) act))"
    by simp
  from returnsD[OF this e] have "fst (bindE (init demo_ext demo_hyperparams)
          (\<lambda>self. get_attr demo_ext self ''model_dir'') demo_world)
     = Inl (AttributeError ''model_dir'')"
    by (simp add: bindE_def e throw_def)
  moreover have "isl (fst (call_method (get_callbacks demo_ext) (OInst []) [OExt 0] demo_world))"
    by (rule t[THEN conjunct2, THEN conjunct1])
  ultimately show ?thesis using init_demo_returns by simp
qed

text \<open>
  C6. A run in the small environment: the instance is constructed, then
  \<^verbatim>\<open>get_callbacks\<close> is called on it. The call ends in the NameError for \<^verbatim>\<open>os\<close>;
  one callback has been created (the sampling one), \<^verbatim>\<open>ModelCheckpoint\<close> has not
  been called, and nothing is returned: there is no checkpoint callback whose file name
  or saving policy could be observed.
\<close>

theorem get_callbacks_demo_no_checkpoint:
  "\<not> isl (fst (init demo_ext demo_hyperparams demo_world))
   \<and> fst (bindE (init demo_ext demo_hyperparams)
          (\<lambda>self. call_method (get_callbacks demo_ext) self [OExt 0]) demo_world)
     = Inl (NameError ''os'')
   \<and> new_steps (bindE (init demo_ext demo_hyperparams)
          (\<lambda>self. call_method (get_callbacks demo_ext) self [OExt 0])) demo_world
     = [LoadEmbedding, SeedRng, BuildNetwork, CompileNetwork, MakeCallback]"
proof -
  note e = init_demo_eval0
  show ?thesis
    apply (simp add: bindE_def e new_steps_def)
    apply (simp add: call_method_def get_callbacks_def)
    apply (simp add: bindE_def ext_call_def demo_ext_def demo_world_def log_event_def throw_def steps_def)
    done
qed

text \<open>
  C2. \<^verbatim>\<open>train\<close> is defined with the two parameters \<^verbatim>\<open>train_fn\<close> and \<^verbatim>\<open>dev_fn\<close>
  and no \<^verbatim>\<open>self\<close>. Called on an instance with two paths it receives three arguments
  and raises a TypeError; called as a plain function with two paths it raises a
  NameError for \<^verbatim>\<open>self\<close>. Either way the state is unchanged: no dataset is loaded
  and \<^verbatim>\<open>fit\<close> is not called.
\<close>

theorem train_on_instance_raises:
  "call_method (train X) self [train_fn, dev_fn] w
     = (Inl (TypeError ''train() takes exactly 2 arguments''), w)
   \<and> train X [train_fn, dev_fn] w = (Inl (NameError ''self''), w)"
  apply (simp add: call_method_def train_def)
  apply (simp add: throw_def)
  done

section \<open>The constructor\<close>




text \<open>
  C8 (as the code has it). Two runs of the constructor on the same hyperparameters, with
  the same libraries and logging level, that start from different generator states and
  get different entropy from the operating system: if the seed is not \<^verbatim>\<open>None\<close> and
  the first run returns, the second returns the same instance, has made the same calls
  and leaves the same generator state, so any later call into a library sees the same
  generator.
\<close>

theorem init_seed_determines_generator:
  "log_level w1 = log_level w2 \<and> events w1 = events w2
   \<and> map_of args ''seed'' \<noteq> Some PNone
   \<and> \<not> isl (fst (init X args w1)) \<longrightarrow>
     fst (init X args w1) = fst (init X args w2)
     \<and> rng (snd (init X args w1)) = rng (snd (init X args w2))
     \<and> events (snd (init X args w1)) = events (snd (init X args w2))
     \<and> call X f as kw (rng (snd (init X args w1)))
       = call X f as kw (rng (snd (init X args w2)))"
proof (intro impI, elim conjE)
  assume l: "log_level w1 = log_level w2" and ev: "events w1 = events w2"
    and sd: "map_of args ''seed'' \<noteq> Some PNone"
    and ok: "\<not> isl (fst (init X args w1))"
  have t: "\<not> \<not> isl (fst (throw err w))" for err :: error and w :: "('a, 'b) world"
    by (simp add: throw_def)
  from ok t obtain v p n s where
    k: "map_of args ''sep'' = Some v" "map_of args ''emb_fn'' = Some p"
       "map_of args ''epochs'' = Some n" "map_of args ''seed'' = Some s"
    by (auto simp: init_unfold bindE_def throw_def Glove_def
             split: option.splits prod.splits sum.splits)
  from sd k(4) have s: "s \<noteq> PNone" by simp
  from ok obtain e where e: "glove X (OVal p) = Inr e"
    by (cases "glove X (OVal p)") (auto simp: init_unfold k bindE_def Glove_def)
  from ok s obtain r where r: "seed_state X (OVal s) = Inr r"
    by (cases "seed_state X (OVal s)")
       (auto simp: init_unfold k e bindE_def Glove_def np_random_seed_def)
  let ?self = "OInst [(''epochs'', OVal n), (''emb'', OExt e),
        (''sep'', OVal (PStr (py_str X v))), (''args'', OVal (PDict args))]"
  let ?W = "\<lambda>w. log_event (EvSeed (OVal s))
              ((log_event (EvCall ''Glove'' [OVal p] []) w)\<lparr>rng := r\<rparr>)"
  have i: "init X args w = init_model X ?self (?W w)" for w
    by (simp add: init_unfold k e r s bindE_def Glove_def np_random_seed_def)
  have "agree (?W w1) (?W w2)"
    by (simp add: agree_def log_event_def l ev)
  with same_init_model[of X ?self]
  have "fst (init_model X ?self (?W w1)) = fst (init_model X ?self (?W w2))
      \<and> agree (snd (init_model X ?self (?W w1))) (snd (init_model X ?self (?W w2)))"
    unfolding same_outcome_def by blast
  then show "fst (init X args w1) = fst (init X args w2)
     \<and> rng (snd (init X args w1)) = rng (snd (init X args w2))
     \<and> events (snd (init X args w1)) = events (snd (init X args w2))
     \<and> call X f as kw (rng (snd (init X args w1)))
       = call X f as kw (rng (snd (init X args w2)))"
    by (simp add: i agree_def)
qed

theorem init_seed_determines_generator_witness:
  "log_level demo_world = log_level (demo_world2\<lparr>rng := 2\<rparr>)
   \<and> events demo_world = events (demo_world2\<lparr>rng := 2\<rparr>)
   \<and> rng demo_world \<noteq> rng (demo_world2\<lparr>rng := 2\<rparr>)
   \<and> map_of demo_hyperparams ''seed'' \<noteq> Some PNone
   \<and> \<not> isl (fst (init demo_ext demo_hyperparams demo_world))
   \<and> fst (init demo_ext demo_hyperparams demo_world)
     = fst (init demo_ext demo_hyperparams (demo_world2\<lparr>rng := 2\<rparr>))
   \<and> rng (snd (init demo_ext demo_hyperparams demo_world))
     = rng (snd (init demo_ext demo_hyperparams (demo_world2\<lparr>rng := 2\<rparr>)))
   \<and> rng (snd (init demo_ext demo_hyperparams demo_world)) = 43"
proof -
  have h: "map_of demo_hyperparams ''seed'' \<noteq> Some PNone"
    by (simp add: demo_hyperparams_def)
  have w: "demo_world2\<lparr>rng := 2\<rparr> = demo_world\<lparr>rng := 2, os_entropy := (\<lambda>n. 200 + n)\<rparr>"
    by (simp add: demo_world2_def)
  have r: "rng demo_world \<noteq> 2" "log_level (demo_world\<lparr>rng := 2, os_entropy := (\<lambda>n. 200 + n)\<rparr>)
      = log_level demo_world" "events (demo_world\<lparr>rng := 2, os_entropy := (\<lambda>n. 200 + n)\<rparr>)
      = events demo_world"
    by (simp_all add: demo_world_def)
  show ?thesis
    using h r init_seed_determines_generator
                [where X = demo_ext and args = demo_hyperparams
                   and ?w1.0 = demo_world and ?w2.0 = "demo_world2\<lparr>rng := 2\<rparr>"
                   and f = "''f''" and as = "[]" and kw = "[]"]
    unfolding w
    by (simp add: init_demo_eval init_demo_eval0)
qed

text \<open>
  With \<^verbatim>\<open>null\<close> as the seed the claim C8 fails: line 56 passes the value on
  unchecked, numpy seeds the generator from the operating system, and two runs that
  differ in nothing but the entropy they get leave different generator states.
\<close>

theorem init_null_seed_counterexample:
  "log_level demo_world = log_level demo_world2
   \<and> events demo_world = events demo_world2
   \<and> rng demo_world = rng demo_world2
   \<and> map_of demo_null_seed ''seed'' = Some PNone
   \<and> \<not> isl (fst (init demo_ext demo_null_seed demo_world))
   \<and> \<not> isl (fst (init demo_ext demo_null_seed demo_world2))
   \<and> rng (snd (init demo_ext demo_null_seed demo_world)) = 101
   \<and> rng (snd (init demo_ext demo_null_seed demo_world2)) = 201
   \<and> rng (snd (init demo_ext demo_null_seed demo_world))
     \<noteq> rng (snd (init demo_ext demo_null_seed demo_world2))"
proof -
  have w: "demo_world = demo_world\<lparr>os_entropy := (\<lambda>n. 100 + n)\<rparr>"
    by (simp add: demo_world_def)
  have 1: "init demo_ext demo_null_seed demo_world
             = init demo_ext demo_null_seed (demo_world\<lparr>os_entropy := (\<lambda>n. 100 + n)\<rparr>)"
    using w by simp
  show ?thesis
    unfolding 1 demo_world2_def
    by (simp add: init_null_seed_eval) (simp add: demo_null_seed_def demo_world_def)
qed

text \<open>
  C10. Whatever value the hyperparameters hold under \<^verbatim>\<open>sep\<close>, line 53 stores its
  \<^verbatim>\<open>str()\<close> text in the instance and line 196 passes its \<^verbatim>\<open>str()\<close> text to
  \<^verbatim>\<open>load_dataset\<close> as the delimiter; neither raises for a value that is no string.
  \<^verbatim>\<open>None\<close>, the booleans and the integers become \<^verbatim>\<open>'None'\<close>, \<^verbatim>\<open>'True'\<close>,
  \<^verbatim>\<open>'False'\<close> and their decimal text.
\<close>

theorem sep_coerced_by_str:
  "(map_of args ''sep'' = Some v \<longrightarrow>
      init_sep X (OInst [(''args'', OVal (PDict args))])
        = ret (OInst [(''sep'', OVal (PStr (py_str X v))), (''args'', OVal (PDict args))]))
   \<and> (map_of hyperparams ''sep'' = Some v \<longrightarrow>
      main_load X train_fn (OVal (PDict hyperparams))
        = load_dataset X [train_fn, OVal (PStr (py_str X v))])
   \<and> py_str X PNone = ''None''
   \<and> py_str X (PBool True) = ''True''
   \<and> py_str X (PBool False) = ''False''
   \<and> py_str X (PInt 5) = ''5''
   \<and> py_str X (PInt (- 12)) = ''-12''"
proof -
  have "str_int 5 = ''5''" "str_int (- 12) = ''-12''"
    by code_simp+
  then show ?thesis
    by (simp add: init_sep_dict main_load_def subscript_def str_obj_def)
qed

theorem sep_coerced_by_str_witness:
  "map_of [(''sep'', PNone)] ''sep'' = Some PNone
   \<and> init_sep demo_ext (OInst [(''args'', OVal (PDict [(''sep'', PNone)]))])
        = ret (OInst [(''sep'', OVal (PStr ''None'')),
                      (''args'', OVal (PDict [(''sep'', PNone)]))])
   \<and> map_of [(''sep'', PInt 5)] ''sep'' = Some (PInt 5)
   \<and> main_load demo_ext (OVal (PStr ''train.tsv'')) (OVal (PDict [(''sep'', PInt 5)]))
        = load_dataset demo_ext [OVal (PStr ''train.tsv''), OVal (PStr ''5'')]"
  using sep_coerced_by_str[of "[(''sep'', PNone)]" PNone demo_ext "[(''sep'', PInt 5)]" "OVal (PStr ''train.tsv'')"]
        sep_coerced_by_str[of "[(''sep'', PNone)]" "PInt 5" demo_ext "[(''sep'', PInt 5)]" "OVal (PStr ''train.tsv'')"]
  by simp

section \<open>The script\<close>

text \<open>
  For every environment, the steps of the script are, in this order: parsing the command
  line, setting the logging level, reading the hyperparameter file, reading one dataset.
  A run that returns has done all four; a run that raises has done the first few of
  them. No run loads an embedding table, seeds the generator, builds a network or fits
  one.
\<close>

lemma main_steps:
  "prefix (new_steps (main X) w) [ParseArgs, ConfigLogging, ReadHyperparams, ReadDataset]
   \<and> (\<not> isl (fst (main X w)) \<longrightarrow>
        new_steps (main X) w = [ParseArgs, ConfigLogging, ReadHyperparams, ReadDataset])
   \<and> LoadEmbedding \<notin> set (new_steps (main X) w)
   \<and> SeedRng \<notin> set (new_steps (main X) w)
   \<and> BuildNetwork \<notin> set (new_steps (main X) w)
   \<and> FitNetwork \<notin> set (new_steps (main X) w)"
proof -
  have p: "prefix (new_steps (main X) w) [ParseArgs, ConfigLogging, ReadHyperparams, ReadDataset]"
    by (rule does_new_steps(1)[OF does_main])
  then have "set (new_steps (main X) w) \<subseteq> set [ParseArgs, ConfigLogging, ReadHyperparams, ReadDataset]"
    by (rule set_mono_prefix)
  then show ?thesis
    using p does_new_steps(2)[OF does_main, of X w] by auto
qed

text \<open>
  C4. The script run in the small environment, on the command line
  \<^verbatim>\<open>--train=train.tsv --dev=dev.tsv --test=test.tsv --hyperparams=hp.json --saveto=out\<close>:
  it parses the command line, sets the logging level, reads the hyperparameter file,
  calls \<^verbatim>\<open>pd.read_csv\<close> on the train file with the text of the value under
  \<^verbatim>\<open>sep\<close> as the delimiter, and ends. The model construction and the training that
  the claim places in the control flow are not among its steps: line 197, the
  construction, is a comment, and \<^verbatim>\<open>train\<close> is called nowhere.
\<close>

theorem main_demo_constructs_nothing:
  "main demo_ext demo_world =
     (Inr (OExt 4),
      demo_world\<lparr>rng := 13, log_level := 20,
        events :=
          [EvCall ''docopt'' [OFun ''__doc__''] [],
           EvBasicConfig 20,
           EvCall ''pformat''
             [OVal (PDict [(''-v'', PBool False), (''--train'', PStr ''train.tsv''),
                (''--dev'', PStr ''dev.tsv''), (''--test'', PStr ''test.tsv''),
                (''--hyperparams'', PStr ''hp.json''), (''--saveto'', PStr ''out'')])] [],
           EvCall ''logging.debug'' [OExt 0] [],
           EvCall ''open'' [OVal (PStr ''hp.json'')] [],
           EvCall ''json.load'' [OExt 0] [],
           EvCall ''pformat'' [OVal (PDict [(''sep'', PInt 5)])] [],
           EvMeth (OVal (PStr ''Model hyperparms: {}'')) ''format'' [OExt 0] [],
           EvCall ''logging.debug'' [OVal PNone] [],
           EvCall ''pd.read_csv'' [OVal (PStr ''train.tsv'')]
             [(''sep'', OVal (PStr ''5'')), (''header'', OVal PNone),
              (''names'', OVal (PList (map PStr column_names))),
              (''engine'', OVal (PStr ''python''))]]\<rparr>)
   \<and> new_steps (main demo_ext) demo_world
       = [ParseArgs, ConfigLogging, ReadHyperparams, ReadDataset]
   \<and> \<not> in_order [ReadHyperparams, BuildNetwork, ReadDataset, FitNetwork]
          (new_steps (main demo_ext) demo_world)"
proof -
  have s5: "str_int 5 = ''5''" by code_simp
  have e: "main demo_ext demo_world =
     (Inr (OExt 4),
      demo_world\<lparr>rng := 13, log_level := 20,
        events :=
          [EvCall ''docopt'' [OFun ''__doc__''] [],
           EvBasicConfig 20,
           EvCall ''pformat''
             [OVal (PDict [(''-v'', PBool False), (''--train'', PStr ''train.tsv''),
                (''--dev'', PStr ''dev.tsv''), (''--test'', PStr ''test.tsv''),
                (''--hyperparams'', PStr ''hp.json''), (''--saveto'', PStr ''out'')])] [],
           EvCall ''logging.debug'' [OExt 0] [],
           EvCall ''open'' [OVal (PStr ''hp.json'')] [],
           EvCall ''json.load'' [OExt 0] [],
           EvCall ''pformat'' [OVal (PDict [(''sep'', PInt 5)])] [],
           EvMeth (OVal (PStr ''Model hyperparms: {}'')) ''format'' [OExt 0] [],
           EvCall ''logging.debug'' [OVal PNone] [],
           EvCall ''pd.read_csv'' [OVal (PStr ''train.tsv'')]
             [(''sep'', OVal (PStr ''5'')), (''header'', OVal PNone),
              (''names'', OVal (PList (map PStr column_names))),
              (''engine'', OVal (PStr ''python''))]]\<rparr>)"
    by (simp add: main_def main_args_def main_paths_def main_hyperparams_def main_load_def
        load_dataset_def demo_ext_def demo_world_def bindE_def ext_call_def ext_meth_def
        subscript_def str_obj_def basicConfig_def log_event_def ret_def throw_def
        INFO_def s5)
  have n: "new_steps (main demo_ext) demo_world
       = [ParseArgs, ConfigLogging, ReadHyperparams, ReadDataset]"
    using does_new_steps(2)[OF does_main, of demo_ext demo_world] by (simp add: e)
  show ?thesis
    using e n by simp
qed

end
